theory Spec2Isabelle
  imports Main
begin

section \<open>JavaScript strings\<close>

text \<open>
  A JavaScript string is a sequence of UTF-16 code units; \<open>length\<close>, indexing and
  \<open>substr\<close> all count code units. A code unit is modelled as a natural number.
  \<open>S\<close> turns an ASCII literal of the theory into such a string.
\<close>

type_synonym jstring = "nat list"

definition S :: "string \<Rightarrow> jstring" where
  "S cs = map of_char cs"

text \<open>The characters that \<open>String.prototype.trim\<close> removes and \<open>\s\<close> matches
  (ECMAScript WhiteSpace and LineTerminator).\<close>

definition isWhiteSpace :: "nat \<Rightarrow> bool" where
  "isWhiteSpace c =
     (c = 9 \<or> c = 10 \<or> c = 11 \<or> c = 12 \<or> c = 13 \<or> c = 32 \<or> c = 160 \<or> c = 5760
      \<or> (8192 \<le> c \<and> c \<le> 8202) \<or> c = 8232 \<or> c = 8233 \<or> c = 8239 \<or> c = 8287
      \<or> c = 12288 \<or> c = 65279)"

definition trimLeft :: "jstring \<Rightarrow> jstring" where
  "trimLeft s = dropWhile isWhiteSpace s"

definition trimRight :: "jstring \<Rightarrow> jstring" where
  "trimRight s = rev (dropWhile isWhiteSpace (rev s))"

definition jsTrim :: "jstring \<Rightarrow> jstring" where
  "jsTrim s = trimRight (trimLeft s)"

text \<open>\<open>/^\w/\<close>: an ASCII letter, a digit or the underscore.\<close>

definition isWordChar :: "nat \<Rightarrow> bool" where
  "isWordChar c = ((48 \<le> c \<and> c \<le> 57) \<or> (65 \<le> c \<and> c \<le> 90) \<or> c = 95 \<or> (97 \<le> c \<and> c \<le> 122))"

text \<open>\<open>/^[a-z-]/i\<close>: without the \<open>u\<close> flag the \<open>i\<close> flag never maps a character
  outside ASCII to an ASCII letter, so this is an ASCII letter or the hyphen.\<close>

definition isTagNameStart :: "nat \<Rightarrow> bool" where
  "isTagNameStart c = ((65 \<le> c \<and> c \<le> 90) \<or> (97 \<le> c \<and> c \<le> 122) \<or> c = 45)"

text \<open>ASCII case folding, as the \<open>i\<close> flag of a regular expression without the \<open>u\<close>
  flag compares ASCII letters.\<close>

definition asciiLowerUnit :: "nat \<Rightarrow> nat" where
  "asciiLowerUnit c = (if 65 \<le> c \<and> c \<le> 90 then c + 32 else c)"

text \<open>\<open>s.split(sep)\<close> for a one-unit separator: the pieces between the separators.\<close>

fun splitOn :: "nat \<Rightarrow> jstring \<Rightarrow> jstring list" where
  "splitOn sep [] = [[]]"
| "splitOn sep (c # cs) =
     (if c = sep then [] # splitOn sep cs
      else (case splitOn sep cs of [] \<Rightarrow> [[c]] | piece # pieces \<Rightarrow> (c # piece) # pieces))"

text \<open>\<open>xs.join(sep)\<close> on strings.\<close>

fun joinWith :: "jstring \<Rightarrow> jstring list \<Rightarrow> jstring" where
  "joinWith sep [] = []"
| "joinWith sep [x] = x"
| "joinWith sep (x # y # ys) = x @ sep @ joinWith sep (y # ys)"

section \<open>JavaScript numbers read from strings\<close>

text \<open>
  The parser converts strings to numbers in two places: \<open>isNaN(name)\<close> and
  \<open>name - 1\<close> on a parameter key (\<open>ToNumber\<close> of a string), and \<open>parseInt\<close>
  on the digits of a numeric character reference. The mathematical value of a literal
  is kept exactly, as a fraction \<open>numerator / denominator\<close> with a sign.
\<close>

definition isDigit :: "nat \<Rightarrow> bool" where
  "isDigit c = (48 \<le> c \<and> c \<le> 57)"

text \<open>The value of a character as a digit of the radix, if it is one
  (\<open>0-9\<close>, \<open>a-z\<close>, \<open>A-Z\<close>).\<close>

definition digitValue :: "nat \<Rightarrow> nat \<Rightarrow> nat option" where
  "digitValue radix c =
     (let v = (if 48 \<le> c \<and> c \<le> 57 then Some (c - 48)
               else if 97 \<le> c \<and> c \<le> 122 then Some (c - 87)
               else if 65 \<le> c \<and> c \<le> 90 then Some (c - 55)
               else None)
      in case v of None \<Rightarrow> None | Some d \<Rightarrow> if d < radix then Some d else None)"

definition digitsValue :: "nat \<Rightarrow> jstring \<Rightarrow> nat" where
  "digitsValue radix ds = foldl (\<lambda>acc c. acc * radix + (case digitValue radix c of Some d \<Rightarrow> d | None \<Rightarrow> 0)) 0 ds"

definition isDigitOf :: "nat \<Rightarrow> nat \<Rightarrow> bool" where
  "isDigitOf radix c = (digitValue radix c \<noteq> None)"

text \<open>
  A Number is an IEEE 754 double: not-a-number, an infinity, or a finite value
  \<open>\<plusminus> m * 2 ^ q\<close>, kept in lowest terms (\<open>m\<close> odd, or \<open>m = 0\<close> and \<open>q = 0\<close>);
  the flag is the sign bit.
\<close>

datatype dbl = DNaN | DInf bool | DFin bool nat int

fun bitlen :: "nat \<Rightarrow> nat" where
  "bitlen n = (if n = 0 then 0 else Suc (bitlen (n div 2)))"

declare bitlen.simps [simp del]

fun stripTwos :: "nat \<Rightarrow> int \<Rightarrow> nat \<times> int" where
  "stripTwos m q = (if m \<noteq> 0 \<and> even m then stripTwos (m div 2) (q + 1) else (m, q))"

declare stripTwos.simps [simp del]

definition normalise :: "bool \<Rightarrow> nat \<Rightarrow> int \<Rightarrow> dbl" where
  "normalise neg m q = (if m = 0 then DFin neg 0 0 else (case stripTwos m q of (m', q') \<Rightarrow> DFin neg m' q'))"

text \<open>The Number value for the fraction \<open>a / b\<close> (\<open>b > 0\<close>) with the given sign: round to
  nearest, ties to even, 53 bits of precision, subnormals below \<open>2 ^ -1022\<close>, infinity
  from \<open>2 ^ 1024\<close> on.\<close>

definition roundDouble :: "bool \<Rightarrow> nat \<Rightarrow> nat \<Rightarrow> dbl" where
  "roundDouble neg a b =
     (if a = 0 then DFin neg 0 0
      else
        let k = int (bitlen a) - int (bitlen b);
            e = (if (if 0 \<le> k then b * 2 ^ nat k \<le> a else b \<le> a * 2 ^ nat (- k)) then k else k - 1);
            q = max e (- 1022) - 52;
            num = a * 2 ^ nat (- q);
            den = b * 2 ^ nat q;
            f = num div den;
            r = num mod den;
            m = (if 2 * r < den then f else if den < 2 * r then f + 1 else if even f then f else f + 1)
        in if 1024 < q + int (bitlen m) then DInf neg else normalise neg m q)"

text \<open>\<open>StrUnsignedDecimalLiteral\<close> without \<open>Infinity\<close>: digits, an optional fraction and
  an optional exponent, with a digit before or after the point. The result is the
  mantissa and the decimal exponent.\<close>

definition exponentPart :: "jstring \<Rightarrow> int option" where
  "exponentPart s =
     (case s of
        [] \<Rightarrow> Some 0
      | c # r \<Rightarrow>
          if c = 101 \<or> c = 69 then
            (let neg = (r \<noteq> [] \<and> hd r = 45);
                 ds = (if r \<noteq> [] \<and> (hd r = 43 \<or> hd r = 45) then tl r else r)
             in if ds \<noteq> [] \<and> list_all isDigit ds
                then Some (if neg then - int (digitsValue 10 ds) else int (digitsValue 10 ds))
                else None)
          else None)"

definition decimalLiteral :: "jstring \<Rightarrow> (nat \<times> int) option" where
  "decimalLiteral s =
     (let ip = takeWhile isDigit s;
          r1 = dropWhile isDigit s;
          hasPoint = (r1 \<noteq> [] \<and> hd r1 = 46);
          fp = (if hasPoint then takeWhile isDigit (tl r1) else []);
          r2 = (if hasPoint then dropWhile isDigit (tl r1) else r1)
      in if ip = [] \<and> fp = [] then None
         else (case exponentPart r2 of
                 None \<Rightarrow> None
               | Some e \<Rightarrow> Some (digitsValue 10 (ip @ fp), e - int (length fp))))"

text \<open>\<open>NonDecimalIntegerLiteral\<close>: \<open>0x\<close>, \<open>0o\<close> or \<open>0b\<close> (either case) and at least one
  digit of that radix.\<close>

definition nonDecimalLiteral :: "jstring \<Rightarrow> nat option" where
  "nonDecimalLiteral s =
     (case s of
        z # x # ds \<Rightarrow>
          (let radix = (if x = 120 \<or> x = 88 then 16 else if x = 111 \<or> x = 79 then 8
                        else if x = 98 \<or> x = 66 then 2 else 0)
           in if z = 48 \<and> radix \<noteq> 0 \<and> ds \<noteq> [] \<and> list_all (isDigitOf radix) ds
              then Some (digitsValue radix ds) else None)
      | _ \<Rightarrow> None)"

text \<open>\<open>ToNumber\<close> of a string (\<open>StringToNumber\<close>), with exact rounding of the
  mathematical value.\<close>

definition toNumber :: "jstring \<Rightarrow> dbl" where
  "toNumber s =
     (let t = jsTrim s
      in if t = [] then DFin False 0 0
         else (case nonDecimalLiteral t of
                 Some n \<Rightarrow> roundDouble False n 1
               | None \<Rightarrow>
                   (let neg = (hd t = 45);
                        u = (if hd t = 43 \<or> hd t = 45 then tl t else t)
                    in if u = S ''Infinity'' then DInf neg
                       else (case decimalLiteral u of
                               None \<Rightarrow> DNaN
                             | Some (m, e) \<Rightarrow>
                                 if 0 \<le> e then roundDouble neg (m * 10 ^ nat e) 1
                                 else roundDouble neg m (10 ^ nat (- e))))))"

text \<open>The global \<open>isNaN\<close> applied to a string.\<close>

definition isNaN :: "jstring \<Rightarrow> bool" where
  "isNaN s = (toNumber s = DNaN)"

text \<open>\<open>x - 1\<close> on doubles.\<close>

definition minusOne :: "dbl \<Rightarrow> dbl" where
  "minusOne d =
     (case d of
        DNaN \<Rightarrow> DNaN
      | DInf neg \<Rightarrow> DInf neg
      | DFin neg m q \<Rightarrow>
          (let num = int (m * 2 ^ nat q);
               den = 2 ^ nat (- q);
               i = (if neg then - num else num) - int den
           in if i = 0 then DFin False 0 0 else roundDouble (i < 0) (nat \<bar>i\<bar>) den))"

text \<open>A property key computed from a number: an array index (an integer from \<open>0\<close> to
  \<open>2 ^ 32 - 2\<close>), or another property, named by the number.\<close>

datatype akey = Index nat | Property dbl

definition arrayKey :: "dbl \<Rightarrow> akey" where
  "arrayKey d =
     (case d of
        DFin neg m q \<Rightarrow>
          if m = 0 then Index 0
          else if \<not> neg \<and> 0 \<le> q \<and> m * 2 ^ nat q < 4294967295 then Index (m * 2 ^ nat q)
          else Property d
      | _ \<Rightarrow> Property d)"

text \<open>\<open>parseInt(string, radix)\<close> for radix 10 or 16.\<close>

definition parseInt :: "jstring \<Rightarrow> nat \<Rightarrow> dbl" where
  "parseInt inputString radix =
     (let s0 = trimLeft inputString;
          neg = (s0 \<noteq> [] \<and> hd s0 = 45);
          s1 = (if s0 \<noteq> [] \<and> (hd s0 = 43 \<or> hd s0 = 45) then tl s0 else s0);
          s2 = (if radix = 16 \<and> (take 2 s1 = S ''0x'' \<or> take 2 s1 = S ''0X'') then drop 2 s1 else s1);
          z = takeWhile (isDigitOf radix) s2
      in if z = [] then DNaN else roundDouble neg (digitsValue radix z) 1)"

text \<open>\<open>String.fromCharCode(n)\<close>: the one code unit \<open>ToUint16(n)\<close>.\<close>

definition toUint16 :: "dbl \<Rightarrow> nat" where
  "toUint16 d =
     (case d of
        DFin neg m q \<Rightarrow>
          (let i = (if 0 \<le> q then m * 2 ^ nat q else m div 2 ^ nat (- q))
           in if neg then (65536 - i mod 65536) mod 65536 else i mod 65536)
      | _ \<Rightarrow> 0)"

definition fromCharCode :: "dbl \<Rightarrow> jstring" where
  "fromCharCode d = [toUint16 d]"

section \<open>Abstract syntax trees\<close>

text \<open>
  The values the parser builds. A node of the tree is a string or an object with a
  \<open>type\<close> field; \<open>Obj\<close> keeps the fields of an object literal in the order they were
  written or assigned. \<open>Dict\<close> is an object used as a dictionary (\<open>parameters\<close>,
  \<open>attributes\<close>): its keys come from the input. \<open>Arr\<close> is an array; a hole of a sparse
  array reads as \<open>Undefined\<close>. \<open>ArrP\<close> is an array that also carries properties that
  are not indices (\<open>positionalParameters[name - 1] = value\<close> with \<open>name\<close> equal to
  \<open>0\<close> or \<open>1.5\<close>, say).
\<close>

datatype val =
    Undefined
  | Null
  | Bool bool
  | Num int
  | Str jstring
  | Arr "val list"
  | ArrP "val list" "(dbl \<times> val) list"
  | Obj "(string \<times> val) list"
  | Dict "(jstring \<times> val) list"

text \<open>\<open>!v\<close> is \<open>\<not> truthy v\<close>; \<open>v == null\<close> is \<open>isNullish v\<close>;
  \<open>typeof v === 'object'\<close> for a value that is not \<open>null\<close> is \<open>isObject v\<close>.\<close>

fun truthy :: "val \<Rightarrow> bool" where
  "truthy Undefined = False"
| "truthy Null = False"
| "truthy (Bool b) = b"
| "truthy (Num n) = (n \<noteq> 0)"
| "truthy (Str s) = (s \<noteq> [])"
| "truthy v = True"

fun isNullish :: "val \<Rightarrow> bool" where
  "isNullish Undefined = True"
| "isNullish Null = True"
| "isNullish v = False"

fun isObject :: "val \<Rightarrow> bool" where
  "isObject (Arr xs) = True"
| "isObject (ArrP xs ps) = True"
| "isObject (Obj fs) = True"
| "isObject (Dict kvs) = True"
| "isObject v = False"

text \<open>Reading and writing a property of an object: an assignment to an existing
  property keeps its place, a new property goes last.\<close>

fun assoc :: "'k \<Rightarrow> ('k \<times> 'v) list \<Rightarrow> 'v option" where
  "assoc k [] = None"
| "assoc k ((k', v) # kvs) = (if k = k' then Some v else assoc k kvs)"

fun assign :: "'k \<Rightarrow> 'v \<Rightarrow> ('k \<times> 'v) list \<Rightarrow> ('k \<times> 'v) list" where
  "assign k v [] = [(k, v)]"
| "assign k v ((k', v') # kvs) = (if k = k' then (k, v) # kvs else (k', v') # assign k v kvs)"

text \<open>\<open>Object.assign(target, source)\<close> on object literals.\<close>

definition objectAssign :: "(string \<times> val) list \<Rightarrow> (string \<times> val) list \<Rightarrow> (string \<times> val) list" where
  "objectAssign target source = foldl (\<lambda>fs (k, v). assign k v fs) target source"

text \<open>\<open>node.type\<close> of an element of a node list: \<open>undefined\<close> on a string.\<close>

fun typeOf :: "val \<Rightarrow> val" where
  "typeOf (Obj fs) = (case assoc ''type'' fs of Some t \<Rightarrow> t | None \<Rightarrow> Undefined)"
| "typeOf v = Undefined"

text \<open>\<open>dict[name] = value\<close> on a dictionary. Assigning to \<open>__proto__\<close> goes to the
  setter of \<open>Object.prototype\<close> and creates no property.\<close>

definition dictSet :: "jstring \<Rightarrow> val \<Rightarrow> (jstring \<times> val) list \<Rightarrow> (jstring \<times> val) list" where
  "dictSet name v kvs = (if name = S ''__proto__'' then kvs else assign name v kvs)"

text \<open>\<open>String(v)\<close>, which \<open>parseInt\<close> and a computed property name apply to their
  argument: an array joins its elements with commas, an object is
  \<open>[object Object]\<close>.\<close>

fun digitsOfNat :: "nat \<Rightarrow> jstring" where
  "digitsOfNat n = (if n < 10 then [48 + n] else digitsOfNat (n div 10) @ [48 + n mod 10])"

declare digitsOfNat.simps [simp del]

fun toString :: "val \<Rightarrow> jstring" where
  "toString Undefined = S ''undefined''"
| "toString Null = S ''null''"
| "toString (Bool b) = (if b then S ''true'' else S ''false'')"
| "toString (Num n) = (if n < 0 then 45 # digitsOfNat (nat (- n)) else digitsOfNat (nat n))"
| "toString (Str s) = s"
| "toString (Arr xs) = joinWith [44] (map (\<lambda>x. if isNullish x then [] else toString x) xs)"
| "toString (ArrP xs ps) = joinWith [44] (map (\<lambda>x. if isNullish x then [] else toString x) xs)"
| "toString (Obj fs) = S ''[object Object]''"
| "toString (Dict kvs) = S ''[object Object]''"

subsection \<open>\<open>Parser.append\<close> and \<open>Parser.trim\<close>\<close>

text \<open>One round of the loop of \<open>append\<close>: a string chunk is concatenated to a last
  element that is a string, anything else is pushed.\<close>

definition appendChunk :: "val list \<Rightarrow> val \<Rightarrow> val list" where
  "appendChunk content chunk =
     (case chunk of
        Str c \<Rightarrow>
          (if content \<noteq> [] then
             (case last content of
                Str l \<Rightarrow> butlast content @ [Str (l @ c)]
              | _ \<Rightarrow> content @ [chunk])
           else content @ [chunk])
      | _ \<Rightarrow> content @ [chunk])"

definition append :: "val list \<Rightarrow> val list \<Rightarrow> val list" where
  "append content chunks = foldl appendChunk content chunks"

definition trimFirst :: "val list \<Rightarrow> val list" where
  "trimFirst content =
     (case content of
        Str s # rest \<Rightarrow> (if trimLeft s = [] then rest else Str (trimLeft s) # rest)
      | _ \<Rightarrow> content)"

definition trimLast :: "val list \<Rightarrow> val list" where
  "trimLast content =
     (if content = [] then content
      else (case last content of
              Str s \<Rightarrow> (if trimRight s = [] then butlast content else butlast content @ [Str (trimRight s)])
            | _ \<Rightarrow> content))"

text \<open>\<open>trim(content)\<close>: \<open>null\<close> and the empty array are returned as they are.\<close>

definition trim :: "val \<Rightarrow> val" where
  "trim content =
     (case content of
        Arr xs \<Rightarrow> (if xs = [] then content else Arr (trimLast (trimFirst xs)))
      | _ \<Rightarrow> content)"

section \<open>The engine: \<open>Parser\<close>\<close>

subsection \<open>State\<close>

text \<open>\<open>this.pos\<close>: a cursor into the input.\<close>

record position =
  offset :: nat
  lineNumber :: nat

text \<open>The predicates the grammar passes around as functions: \<open>this.isStartOfLine\<close>,
  \<open>this.isEndOfLine\<close>, the test for a URI scheme after \<open>[\<close> and
  \<open>this.isAfterTagName()\<close>.\<close>

datatype cond = IsStartOfLine | IsEndOfLine | UriSchemeFollows | IsAfterTagName

record options =
  backtrackingLimit :: int
  throwError :: bool
  returnError :: bool
  debug :: bool

text \<open>What the parser throws: \<open>BacktrackingLimitExceededError\<close>; the \<open>Error\<close> of
  \<open>this.error\<close> (the chunks expected, the line, the annotated stack); the \<open>Error\<close> for a
  \<open>postProcess\<close> without a result; and the \<open>TypeError\<close> of the runtime, for a method
  call on a value that has no such method or a loop over a value that is not iterable.\<close>

datatype error =
    BacktrackingLimitExceededError
  | ExpectedError "jstring list" nat "position list"
  | PostProcessError "string option"
  | TypeError

text \<open>
  The fields of the parser object. \<open>toLowerCase\<close> is the \<open>String.prototype.toLowerCase\<close>
  of the host: the Unicode case table is not part of the repository, so it is a parameter
  of the model, carried with the state. \<open>lowercaseStr\<close> holds one lowercased string for
  each code unit of \<open>str\<close>.
\<close>

record parser =
  options :: options
  toLowerCase :: "jstring \<Rightarrow> jstring"
  str :: jstring
  lowercaseStr :: "jstring list"
  pos :: position
  backtrackOn :: "cond list"
  backtrackingCount :: int
  stack :: "position list"

subsection \<open>Computations on the parser state\<close>

text \<open>A method of the parser returns a value and the new state, or throws, or (in the
  model only) runs out of fuel.\<close>

datatype 'a result = Ok 'a parser | Err error parser | OutOfFuel

type_synonym 'a M = "parser \<Rightarrow> 'a result"

definition ret :: "'a \<Rightarrow> 'a M" where
  "ret v = (\<lambda>p. Ok v p)"

definition throw :: "error \<Rightarrow> 'a M" where
  "throw e = (\<lambda>p. Err e p)"

definition bind :: "'a M \<Rightarrow> ('a \<Rightarrow> 'b M) \<Rightarrow> 'b M" where
  "bind m f = (\<lambda>p. case m p of Ok v p' \<Rightarrow> f v p' | Err e p' \<Rightarrow> Err e p' | OutOfFuel \<Rightarrow> OutOfFuel)"

definition gets :: "(parser \<Rightarrow> 'a) \<Rightarrow> 'a M" where
  "gets f = (\<lambda>p. Ok (f p) p)"

definition setPos :: "position \<Rightarrow> unit M" where
  "setPos q = (\<lambda>p. Ok () (p\<lparr>pos := q\<rparr>))"

subsection \<open>Cursor primitives\<close>

definition isStart :: "parser \<Rightarrow> bool" where
  "isStart p = (offset (pos p) = 0)"

definition isEnd :: "parser \<Rightarrow> bool" where
  "isEnd p = (length (str p) \<le> offset (pos p))"

definition isStartOfLine :: "parser \<Rightarrow> bool" where
  "isStartOfLine p =
     ((0 < length (str p) \<and> 0 < offset (pos p) \<and> offset (pos p) - 1 < length (str p)
         \<and> str p ! (offset (pos p) - 1) = 10)
      \<or> isStart p)"

definition isEndOfLine :: "parser \<Rightarrow> bool" where
  "isEndOfLine p = (isEnd p \<or> str p ! offset (pos p) = 10)"

text \<open>\<open>startsWith(prefix)\<close>: each unit of the prefix equals the lowercased string of the
  unit of the input at its place; past the end of the input nothing is equal.\<close>

definition startsWith :: "parser \<Rightarrow> jstring \<Rightarrow> bool" where
  "startsWith p prefix =
     (take (length prefix) (drop (offset (pos p)) (lowercaseStr p)) = map (\<lambda>c. [c]) prefix)"

definition startsWithAny :: "parser \<Rightarrow> jstring list \<Rightarrow> bool" where
  "startsWithAny p prefixes = list_ex (startsWith p) prefixes"

text \<open>The sticky, case-insensitive regular expression of \<open>externalLink\<close>,
  \<open>((https?|ftps?|sftp|git|svn|ircs?):)?\/\/|(mailto|magnet|tel|urn|xmpp|geo):\<close>,
  matched against \<open>this.str\<close> at the cursor.\<close>

definition startsWithCI :: "parser \<Rightarrow> jstring \<Rightarrow> bool" where
  "startsWithCI p prefix =
     (map asciiLowerUnit (take (length prefix) (drop (offset (pos p)) (str p))) = prefix)"

definition uriSchemeFollows :: "parser \<Rightarrow> bool" where
  "uriSchemeFollows p =
     (startsWithCI p (S ''//'')
      \<or> list_ex (\<lambda>scheme. startsWithCI p (S scheme @ S ''://''))
           [''http'', ''https'', ''ftp'', ''ftps'', ''sftp'', ''git'', ''svn'', ''irc'', ''ircs'']
      \<or> list_ex (\<lambda>scheme. startsWithCI p (S scheme @ S '':''))
           [''mailto'', ''magnet'', ''tel'', ''urn'', ''xmpp'', ''geo''])"

definition isAfterTagName :: "parser \<Rightarrow> bool" where
  "isAfterTagName p = startsWithAny p [S '' '', S ''>'', S ''/>'', S ''/ >'', [9]]"

fun holds :: "cond \<Rightarrow> parser \<Rightarrow> bool" where
  "holds IsStartOfLine p = isStartOfLine p"
| "holds IsEndOfLine p = isEndOfLine p"
| "holds UriSchemeFollows p = uriSchemeFollows p"
| "holds IsAfterTagName p = isAfterTagName p"

text \<open>\<open>advance(chunk)\<close> moves the cursor by the length of the chunk and counts its
  newlines; it returns the chunk.\<close>

definition advance :: "jstring \<Rightarrow> jstring M" where
  "advance chunk =
     (\<lambda>p. Ok chunk
        (p\<lparr>pos := \<lparr>offset = offset (pos p) + length chunk,
                    lineNumber = lineNumber (pos p) + length (filter (\<lambda>c. c = 10) chunk)\<rparr>\<rparr>))"

text \<open>\<open>this.error(...)\<close>: the message names what was expected and the line, and carries
  the stack of positions with the current one, innermost first.\<close>

definition error :: "jstring list \<Rightarrow> 'a M" where
  "error expected = (\<lambda>p. Err (ExpectedError expected (lineNumber (pos p)) (rev (stack p @ [pos p]))) p)"

definition eat :: "jstring \<Rightarrow> bool \<Rightarrow> bool M" where
  "eat chunk err =
     (\<lambda>p. if startsWith p chunk then bind (advance chunk) (\<lambda>_. ret True) p
          else if err then error [chunk] p
          else Ok False p)"

fun eatAnyFrom :: "jstring list \<Rightarrow> jstring list \<Rightarrow> bool \<Rightarrow> bool M" where
  "eatAnyFrom all [] err = (if err then error all else ret False)"
| "eatAnyFrom all (chunk # chunks) err =
     (\<lambda>p. if startsWith p chunk then bind (advance chunk) (\<lambda>_. ret True) p
          else eatAnyFrom all chunks err p)"

definition eatAny :: "jstring list \<Rightarrow> bool \<Rightarrow> bool M" where
  "eatAny chunks err = eatAnyFrom chunks chunks err"

text \<open>\<open>eatCount(chunk)\<close>: the loop advances by a chunk while the input starts with it.
  The fuel is the length of the input and one: enough for every chunk that is not
  empty (on the empty chunk the loop of the source does not end).\<close>

primrec eatCountLoop :: "nat \<Rightarrow> jstring \<Rightarrow> nat \<Rightarrow> nat M" where
  "eatCountLoop 0 chunk count = (\<lambda>p. OutOfFuel)"
| "eatCountLoop (Suc fuel) chunk count =
     (\<lambda>p. if startsWith p chunk
          then bind (advance chunk) (\<lambda>_. eatCountLoop fuel chunk (count + 1)) p
          else Ok count p)"

declare eatCountLoop.simps [simp del]

definition eatCount :: "jstring \<Rightarrow> nat M" where
  "eatCount chunk = (\<lambda>p. eatCountLoop (Suc (length (str p))) chunk 0 p)"

text \<open>\<open>eatWhitespace(newLine)\<close>: spaces, tabs and, when asked, newlines.\<close>

primrec eatWhitespaceLoop :: "nat \<Rightarrow> bool \<Rightarrow> unit M" where
  "eatWhitespaceLoop 0 newLine = (\<lambda>p. OutOfFuel)"
| "eatWhitespaceLoop (Suc fuel) newLine =
     bind (eatAny ([S '' '', [9]] @ (if newLine then [[10]] else [])) False)
       (\<lambda>more. if more then eatWhitespaceLoop fuel newLine else ret ())"

declare eatWhitespaceLoop.simps [simp del]

definition eatWhitespace :: "bool \<Rightarrow> unit M" where
  "eatWhitespace newLine = (\<lambda>p. eatWhitespaceLoop (Suc (length (str p))) newLine p)"

subsection \<open>Options of \<open>next\<close> and grammar descriptors\<close>

text \<open>
  The options \<open>next\<close> reads from its argument (\<open>end'\<close> is \<open>end\<close>, \<open>backtrackOnOpt\<close> is
  the option \<open>backtrackOn\<close>). No caller passes \<open>endBeforeRegex\<close> or \<open>endOn\<close>, so they
  are always absent. The key \<open>stop\<close>, which several callers pass, is not an option of
  \<open>next\<close>: it is never read, and the model leaves it out.
  \<open>allow\<close> is \<open>None\<close> for \<open>null\<close> and \<open>Some []\<close> for \<open>kEmpty\<close>.
\<close>

record nextOpts =
  end' :: "jstring list"
  endAtEos :: bool
  notEnd :: "jstring list"
  endBefore :: "jstring list"
  backtrack :: "jstring list"
  allow :: "string list option"
  disallow :: "string list"
  backtrackOnOpt :: "cond option"

definition noOpts :: nextOpts where
  "noOpts = \<lparr>end' = [], endAtEos = False, notEnd = [], endBefore = [], backtrack = [],
             allow = None, disallow = [], backtrackOnOpt = None\<rparr>"

text \<open>The argument of \<open>WikiParser.tag\<close>, with its defaults.\<close>

record tagOpts =
  only :: "jstring list option"
  hasContent :: bool
  tagType :: jstring
  tagAllow :: "string list option"
  tagDisallow :: "string list"
  tagEndBefore :: "jstring list"
  tagTrim :: bool

definition tagDefaults :: tagOpts where
  "tagDefaults = \<lparr>only = None, hasContent = True, tagType = S ''tag'', tagAllow = None,
                   tagDisallow = [''preformatted''], tagEndBefore = [[10, 124], [10, 33]],
                   tagTrim = True\<rparr>"

text \<open>The \<open>func\<close> of a descriptor: which production it calls, with its arguments.\<close>

datatype prod =
    Link
  | ExternalLink
  | Template "string list option"
  | ListOf jstring
  | Indent
  | Description
  | Heading
  | HtmlEntity
  | Preformatted
  | Tag tagOpts
  | Gallery
  | Table

text \<open>The \<open>postProcess\<close> functions of the grammar: of \<open>templatePreformatted\<close>,
  \<open>comment\<close>, \<open>lineBreak\<close> and \<open>nowiki\<close>.\<close>

datatype postproc = RetypeTemplate | StripComment | DropContent | NowikiOrEmpty

text \<open>A descriptor of the grammar table; \<open>next(nodeType)\<close> reads its options from the
  descriptor itself, so a descriptor extends the options.\<close>

record rule = nextOpts +
  type :: "string option"
  start :: jstring
  keepStart :: bool
  preCondition :: "cond option"
  postCondition :: "cond option"
  func :: "prod option"
  replaceWith :: "jstring option"
  postProcess :: "postproc option"

text \<open>An entry of a grammar: a descriptor and its \<open>group\<close>, if it has one.\<close>

type_synonym nodeType = "rule \<times> rule list option"

definition mkRule :: "string option \<Rightarrow> jstring \<Rightarrow> rule" where
  "mkRule t s =
     \<lparr>end' = [], endAtEos = False, notEnd = [], endBefore = [], backtrack = [],
      allow = None, disallow = [], backtrackOnOpt = None,
      type = t, start = s, keepStart = False, preCondition = None, postCondition = None,
      func = None, replaceWith = None, postProcess = None\<rparr>"

subsection \<open>The grammar of \<open>WikiParser\<close>\<close>

definition htmlEntities :: "rule list" where
  "htmlEntities =
     [(mkRule (Some ''nbsp'') (S ''nbsp;'')) \<lparr>replaceWith := Some [160]\<rparr>,
      (mkRule (Some ''lt'') (S ''lt;'')) \<lparr>replaceWith := Some (S ''<'')\<rparr>,
      (mkRule (Some ''gt'') (S ''gt;'')) \<lparr>replaceWith := Some (S ''>'')\<rparr>,
      (mkRule (Some ''mdash'') (S ''mdash;'')) \<lparr>replaceWith := Some [8212]\<rparr>,
      (mkRule (Some ''ndash'') (S ''ndash;'')) \<lparr>replaceWith := Some [8211]\<rparr>,
      (mkRule (Some ''minus'') (S ''minus;'')) \<lparr>replaceWith := Some [8722]\<rparr>,
      (mkRule (Some ''thinsp'') (S ''thinsp;'')) \<lparr>replaceWith := Some [8201]\<rparr>,
      (mkRule (Some ''htmlEntity'') (S ''#'')) \<lparr>func := Some HtmlEntity\<rparr>]"

definition tags :: "rule list" where
  "tags =
     [(mkRule (Some ''comment'') (S ''<!--''))
        \<lparr>end' := [S ''-->''], allow := Some [], postProcess := Some StripComment\<rparr>,
      (mkRule (Some ''lineBreak'') (S ''<br''))
        \<lparr>end' := [S ''>''], postCondition := Some IsAfterTagName, postProcess := Some DropContent\<rparr>,
      (mkRule (Some ''hr'') (S ''<hr''))
        \<lparr>keepStart := True, func := Some (Tag (tagDefaults\<lparr>only := Some [S ''hr''], hasContent := False\<rparr>))\<rparr>,
      (mkRule (Some ''source'') (S ''<source''))
        \<lparr>keepStart := True,
         func := Some (Tag (tagDefaults\<lparr>only := Some [S ''source''], tagType := S ''source'', tagAllow := Some []\<rparr>))\<rparr>,
      (mkRule (Some ''math'') (S ''<math''))
        \<lparr>keepStart := True,
         func := Some (Tag (tagDefaults\<lparr>only := Some [S ''math''], tagType := S ''math'',
                                         tagDisallow := [''template'', ''templatePreformatted'']\<rparr>))\<rparr>,
      (mkRule (Some ''ref'') (S ''<ref''))
        \<lparr>keepStart := True, func := Some (Tag (tagDefaults\<lparr>only := Some [S ''ref''], tagType := S ''ref''\<rparr>))\<rparr>,
      (mkRule (Some ''nowiki'') (S ''<nowiki''))
        \<lparr>keepStart := True,
         func := Some (Tag (tagDefaults\<lparr>only := Some [S ''nowiki''], tagType := S ''nowiki'', tagAllow := Some []\<rparr>)),
         postProcess := Some NowikiOrEmpty\<rparr>,
      (mkRule (Some ''pre'') (S ''<pre''))
        \<lparr>keepStart := True,
         func := Some (Tag (tagDefaults\<lparr>only := Some [S ''pre''], tagType := S ''pre'', tagAllow := Some [],
                                         tagTrim := False\<rparr>))\<rparr>,
      (mkRule (Some ''syntaxhighlight'') (S ''<syntaxhighlight''))
        \<lparr>keepStart := True,
         func := Some (Tag (tagDefaults\<lparr>only := Some [S ''syntaxhighlight''], tagType := S ''syntaxhighlight'',
                                         tagAllow := Some []\<rparr>))\<rparr>,
      (mkRule (Some ''code'') (S ''<code''))
        \<lparr>keepStart := True,
         func := Some (Tag (tagDefaults\<lparr>only := Some [S ''code''], tagType := S ''code'', tagAllow := Some []\<rparr>))\<rparr>,
      (mkRule (Some ''gallery'') (S ''<gallery''))
        \<lparr>postCondition := Some IsAfterTagName, func := Some Gallery\<rparr>,
      (mkRule (Some ''tag'') (S ''<''))
        \<lparr>keepStart := True, func := Some (Tag tagDefaults)\<rparr>]"

definition grammar :: "nodeType list" where
  "grammar =
     [((mkRule (Some ''link'') (S ''[['')) \<lparr>func := Some Link\<rparr>, None),
      ((mkRule (Some ''externalLink'') (S ''[''))
         \<lparr>postCondition := Some UriSchemeFollows, func := Some ExternalLink\<rparr>, None),
      ((mkRule (Some ''boldItalics'') [39, 39, 39, 39, 39])
         \<lparr>end' := [[39, 39, 39, 39, 39]], backtrackOnOpt := Some IsEndOfLine\<rparr>, None),
      ((mkRule (Some ''bold'') [39, 39, 39])
         \<lparr>end' := [[39, 39, 39]], backtrackOnOpt := Some IsEndOfLine\<rparr>, None),
      ((mkRule (Some ''italics'') [39, 39])
         \<lparr>end' := [[39, 39]], notEnd := [[39, 39, 39]], disallow := [''preformatted''],
          backtrackOnOpt := Some IsEndOfLine\<rparr>, None),
      ((mkRule (Some ''template'') (S ''{{'')) \<lparr>func := Some (Template None)\<rparr>, None),
      ((mkRule (Some ''templatePreformatted'') (S ''{{''))
         \<lparr>func := Some (Template (Some [])), postProcess := Some RetypeTemplate\<rparr>, None),
      ((mkRule (Some ''unorderedList'') (S ''*''))
         \<lparr>keepStart := True, preCondition := Some IsStartOfLine, func := Some (ListOf (S ''*''))\<rparr>, None),
      ((mkRule (Some ''orderedList'') (S ''#''))
         \<lparr>keepStart := True, preCondition := Some IsStartOfLine, func := Some (ListOf (S ''#''))\<rparr>, None),
      ((mkRule (Some ''indent'') (S '':''))
         \<lparr>keepStart := True, preCondition := Some IsStartOfLine, func := Some Indent\<rparr>, None),
      ((mkRule (Some ''description'') (S '';''))
         \<lparr>preCondition := Some IsStartOfLine, func := Some Description\<rparr>, None),
      ((mkRule (Some ''heading'') (S ''=''))
         \<lparr>keepStart := True, preCondition := Some IsStartOfLine, func := Some Heading\<rparr>, None),
      (mkRule None (S ''&''), Some htmlEntities),
      ((mkRule (Some ''toc'') (S ''__TOC__'')) \<lparr>end' := [[]]\<rparr>, None),
      ((mkRule (Some ''notoc'') (S ''__NOTOC__'')) \<lparr>end' := [[]]\<rparr>, None),
      ((mkRule (Some ''preformatted'') (S '' ''))
         \<lparr>keepStart := True, preCondition := Some IsStartOfLine, func := Some Preformatted\<rparr>, None),
      ((mkRule None (S ''<'')) \<lparr>keepStart := True\<rparr>, Some tags),
      ((mkRule (Some ''table'') (S ''{|'')) \<lparr>func := Some Table\<rparr>, None),
      ((mkRule (Some ''horizontalRule'') (S ''----'')) \<lparr>preCondition := Some IsStartOfLine\<rparr>, None)]"

subsection \<open>Calls\<close>

text \<open>
  \<open>next\<close>, \<open>node\<close> and the productions call each other, and nothing in the source bounds
  the depth. The model makes every such call, and every round of a loop whose body makes
  one, through a parameter \<open>rec\<close>; \<open>run\<close> below ties the knot with fuel. A \<open>call\<close> names
  the method (or the head of the loop) and carries its arguments and local variables.
\<close>

text \<open>\<open>positionalParameters\<close> while it is filled: the elements and the properties that
  are not indices.\<close>

type_synonym sparse = "val list \<times> (dbl \<times> val) list"

datatype call =
    Next nextOpts
  | NextLoop nextOpts position nat nat "val list"
  | Node "string list option" "string list" "nodeType list"
  | TemplateLoop jstring "string list option" "(jstring \<times> val) list" sparse
  | LinkLoop "val list" "(jstring \<times> val) list" sparse
  | AttributesLoop "jstring list" bool "(jstring \<times> val) list"
  | ListLoop jstring "val list"
  | IndentLoop bool "val list"
  | PreformattedLoop "val list"
  | TableLoop val val "val list"
  | TableRowLoop val "val list" "val list"
  | GalleryLoop val "val list"
  | EatCommentsLoop "val list"

type_synonym rec = "call \<Rightarrow> val M"

subsection \<open>Helpers on values\<close>

definition sparseSet :: "akey \<Rightarrow> val \<Rightarrow> sparse \<Rightarrow> sparse" where
  "sparseSet key v sp =
     (case sp of (xs, ps) \<Rightarrow>
        (case key of
           Index i \<Rightarrow>
             (if i < length xs then (xs[i := v], ps)
              else (xs @ replicate (i - length xs) Undefined @ [v], ps))
         | Property d \<Rightarrow> (xs, assign d v ps)))"

definition sparsePush :: "val \<Rightarrow> sparse \<Rightarrow> sparse" where
  "sparsePush v sp = (case sp of (xs, ps) \<Rightarrow> (xs @ [v], ps))"

definition sparseVal :: "sparse \<Rightarrow> val" where
  "sparseVal sp = (case sp of (xs, ps) \<Rightarrow> if ps = [] then Arr xs else ArrP xs ps)"

definition objFields :: "val \<Rightarrow> (string \<times> val) list" where
  "objFields v = (case v of Obj fs \<Rightarrow> fs | _ \<Rightarrow> [])"

definition arrItems :: "val \<Rightarrow> val list" where
  "arrItems v = (case v of Arr xs \<Rightarrow> xs | ArrP xs ps \<Rightarrow> xs | _ \<Rightarrow> [])"

text \<open>The parameter loops of \<open>template\<close> and \<open>link\<close> share their body but for the
  terminators. \<open>paramName\<close> is \<open>nameContent[0].trim().toLowerCase()\<close> when \<open>nameContent\<close>
  is a non-empty array, and the empty string (no key) otherwise; on a first element
  that is not a string the method call throws.\<close>

definition paramName :: "val \<Rightarrow> jstring M" where
  "paramName nameContent =
     (case nameContent of
        Arr (x # xs) \<Rightarrow>
          (case x of
             Str s \<Rightarrow> bind (gets toLowerCase) (\<lambda>lower. ret (lower (jsTrim s)))
           | _ \<Rightarrow> throw TypeError)
      | _ \<Rightarrow> ret [])"

text \<open>\<open>if (isNaN(name)) parameters[name] = value; else positionalParameters[name - 1] = value;\<close>\<close>

definition storeParam ::
  "jstring \<Rightarrow> val \<Rightarrow> (jstring \<times> val) list \<times> sparse \<Rightarrow> (jstring \<times> val) list \<times> sparse" where
  "storeParam name v ps =
     (case ps of (parameters, positionalParameters) \<Rightarrow>
        if isNaN name then (dictSet name v parameters, positionalParameters)
        else (parameters, sparseSet (arrayKey (minusOne (toNumber name))) v positionalParameters))"

subsection \<open>Productions of \<open>WikiParser\<close>\<close>

definition templateLoop ::
  "rec \<Rightarrow> jstring \<Rightarrow> string list option \<Rightarrow> (jstring \<times> val) list \<Rightarrow> sparse \<Rightarrow> val M" where
  "templateLoop rec name allow0 parameters positionalParameters =
     bind (eat (S ''|'') False) (\<lambda>more.
       if more then
         bind (gets pos) (\<lambda>originalPos.
         bind (rec (Next (noOpts\<lparr>end' := [S ''=''], allow := Some [''comment''],
                                  backtrackOnOpt := Some IsEndOfLine\<rparr>))) (\<lambda>nameContent.
         bind (paramName nameContent) (\<lambda>key.
           if key \<noteq> [] then
             bind (rec (Next (noOpts\<lparr>endBefore := [S ''|'', S ''}}''], allow := allow0,
                                      disallow := [''preformatted'']\<rparr>))) (\<lambda>v.
               (case storeParam key (trim v) (parameters, positionalParameters) of
                  (parameters', positionalParameters') \<Rightarrow>
                    rec (TemplateLoop name allow0 parameters' positionalParameters')))
           else
             bind (setPos originalPos) (\<lambda>_.
             bind (rec (Next (noOpts\<lparr>endBefore := [S ''|'', S ''}}''], allow := allow0,
                                      disallow := [''preformatted'']\<rparr>))) (\<lambda>v.
               rec (TemplateLoop name allow0 parameters (sparsePush (trim v) positionalParameters)))))))
       else
         bind (eat (S ''}}'') False) (\<lambda>closed.
           if \<not> closed then ret Null
           else ret (Obj [(''name'', Str name), (''parameters'', Dict parameters),
                          (''positionalParameters'', sparseVal positionalParameters)])))"

definition template :: "rec \<Rightarrow> string list option \<Rightarrow> val M" where
  "template rec allow0 =
     bind (rec (Next (noOpts\<lparr>endBefore := [S ''|'', S ''}}''],
                              allow := Some [''comment'', ''template'']\<rparr>))) (\<lambda>nameContentRaw.
       (case nameContentRaw of
          Arr raw \<Rightarrow>
            (let nameContent = filter (\<lambda>part. typeOf part \<noteq> Str (S ''comment'')) raw
             in if nameContent = [] then ret Null
                else (case hd nameContent of
                        Str s \<Rightarrow>
                          bind (gets toLowerCase) (\<lambda>lower.
                            (let name = lower (jsTrim s)
                             in if name = [] then ret Null
                                else bind (eatWhitespace True) (\<lambda>_.
                                       rec (TemplateLoop name (if name = S ''code'' then Some [] else allow0)
                                              [] ([], [])))))
                      | _ \<Rightarrow> throw TypeError))
        | _ \<Rightarrow> ret Null))"

text \<open>The link trail: \<open>while (!this.isEnd() && this.str[this.pos.offset].match(/^\w/))\<close>.
  The fuel is the length of the input and one, which is enough.\<close>

primrec linkTrail :: "nat \<Rightarrow> val \<Rightarrow> val M" where
  "linkTrail 0 content = (\<lambda>p. OutOfFuel)"
| "linkTrail (Suc fuel) content =
     (\<lambda>p. if \<not> isEnd p \<and> isWordChar (str p ! offset (pos p))
          then bind (advance [str p ! offset (pos p)]) (\<lambda>ch.
                 (case content of
                    Arr xs \<Rightarrow> linkTrail fuel (Arr (append xs [Str ch]))
                  | _ \<Rightarrow> throw TypeError)) p
          else Ok content p)"

declare linkTrail.simps [simp del]

definition linkLoop :: "rec \<Rightarrow> val list \<Rightarrow> (jstring \<times> val) list \<Rightarrow> sparse \<Rightarrow> val M" where
  "linkLoop rec page parameters positionalParameters =
     bind (eat (S ''|'') False) (\<lambda>more.
       if more then
         bind (gets pos) (\<lambda>originalPos.
         bind (rec (Next (noOpts\<lparr>end' := [S ''=''], allow := Some [''comment''],
                                  backtrackOnOpt := Some IsEndOfLine\<rparr>))) (\<lambda>nameContent.
         bind (paramName nameContent) (\<lambda>key.
           if key \<noteq> [] then
             bind (rec (Next (noOpts\<lparr>endBefore := [S ''|'', S '']]''],
                                      disallow := [''preformatted'']\<rparr>))) (\<lambda>v.
               (case storeParam key (trim v) (parameters, positionalParameters) of
                  (parameters', positionalParameters') \<Rightarrow>
                    rec (LinkLoop page parameters' positionalParameters')))
           else
             bind (setPos originalPos) (\<lambda>_.
             bind (rec (Next (noOpts\<lparr>endBefore := [S ''|'', S '']]''],
                                      disallow := [''preformatted'']\<rparr>))) (\<lambda>v.
               rec (LinkLoop page parameters (sparsePush (trim v) positionalParameters)))))))
       else
         bind (eat (S '']]'') False) (\<lambda>closed.
           if \<not> closed then ret (Bool False)
           else if page = [] then ret Null
           else (case hd page of
                   Str s \<Rightarrow>
                     (let pieces = splitOn 35 (jsTrim s);
                          to = hd pieces;
                          anchor = (if 1 < length pieces then Str (pieces ! 1) else Undefined);
                          given = (fst positionalParameters \<noteq> []);
                          content0 = (if given then last (fst positionalParameters) else Arr [Str to]);
                          others = (if given then (butlast (fst positionalParameters), snd positionalParameters)
                                    else positionalParameters)
                      in bind (gets (\<lambda>p. Suc (length (str p)))) (\<lambda>fuel.
                         bind (linkTrail fuel content0) (\<lambda>content.
                           ret (Obj ([(''to'', Str to), (''content'', content)]
                                     @ (if truthy anchor then [(''anchor'', anchor)] else [])
                                     @ (if parameters \<noteq> [] then [(''parameters'', Dict parameters)] else [])
                                     @ (if fst others \<noteq> [] then [(''positionalParameters'', sparseVal others)]
                                        else []))))))
                 | _ \<Rightarrow> throw TypeError)))"

definition link :: "rec \<Rightarrow> val M" where
  "link rec =
     bind (rec (Next (noOpts\<lparr>endBefore := [S ''|'', S '']]''], allow := Some [''nbsp''],
                              backtrackOnOpt := Some IsEndOfLine\<rparr>))) (\<lambda>page.
       (case page of
          Arr xs \<Rightarrow> rec (LinkLoop xs [] ([], []))
        | _ \<Rightarrow> ret Null))"

definition externalLink :: "rec \<Rightarrow> val M" where
  "externalLink rec =
     bind (rec (Next (noOpts\<lparr>end' := [S '' '', [9]], endBefore := [S '']''],
                              allow := Some [''comment'']\<rparr>))) (\<lambda>uri.
       (case uri of
          Arr parts \<Rightarrow>
            bind (rec (Next (noOpts\<lparr>end' := [S '']''], backtrackOnOpt := Some IsEndOfLine\<rparr>))) (\<lambda>c.
              ret (Obj [(''uri'', Str (concat (map (\<lambda>part. case part of Str s \<Rightarrow> s | _ \<Rightarrow> []) parts))),
                        (''content'', if truthy (trim c) then trim c else Arr [])]))
        | _ \<Rightarrow> ret Null))"

definition quotedString :: "rec \<Rightarrow> bool \<Rightarrow> val M" where
  "quotedString rec closeQuoteOnNewline =
     bind (eat [34] True) (\<lambda>_.
     bind (rec (Next (noOpts\<lparr>end' := [[34]], endBefore := (if closeQuoteOnNewline then [[10]] else []),
                              allow := Some []\<rparr>))) (\<lambda>content.
       ret (case content of
              Arr (x # xs) \<Rightarrow> if truthy x then x else Str []
            | Arr [] \<Rightarrow> Str []
            | _ \<Rightarrow> Null)))"

definition attributesLoop :: "rec \<Rightarrow> jstring list \<Rightarrow> bool \<Rightarrow> (jstring \<times> val) list \<Rightarrow> val M" where
  "attributesLoop rec endBefore0 closeQuoteOnNewline attributes =
     bind (gets (\<lambda>p. \<not> isEnd p \<and> \<not> startsWithAny p endBefore0)) (\<lambda>go.
       if \<not> go then ret (Dict attributes)
       else
         bind (eatWhitespace False) (\<lambda>_.
         bind (rec (Next (noOpts\<lparr>end' := [S '' '', [9]], endBefore := endBefore0 @ [S ''='']\<rparr>))) (\<lambda>nc.
         bind (eatWhitespace False) (\<lambda>_.
           (case trim nc of
              Arr (name # rest) \<Rightarrow>
                bind (eat (S ''='') False) (\<lambda>eq.
                  if \<not> eq then
                    rec (AttributesLoop endBefore0 closeQuoteOnNewline
                           (dictSet (toString name) (Bool True) attributes))
                  else
                    bind (eatWhitespace False) (\<lambda>_.
                    bind (gets (\<lambda>p. startsWith p [34])) (\<lambda>quoted.
                    bind (if quoted then quotedString rec closeQuoteOnNewline
                          else bind (rec (Next (noOpts\<lparr>end' := [S '' '', [9]], endBefore := endBefore0\<rparr>)))
                                 (\<lambda>v. ret (case v of
                                              Arr (x # xs) \<Rightarrow> x
                                            | Arr [] \<Rightarrow> Undefined
                                            | _ \<Rightarrow> Null))) (\<lambda>v.
                      if isNullish v then ret (Dict attributes)
                      else rec (AttributesLoop endBefore0 closeQuoteOnNewline
                                  (dictSet (toString name) v attributes))))))
            | _ \<Rightarrow> ret (Dict attributes))))))"

definition attributes :: "rec \<Rightarrow> jstring list \<Rightarrow> bool \<Rightarrow> val M" where
  "attributes rec endBefore0 closeQuoteOnNewline =
     bind (eatWhitespace False) (\<lambda>_. rec (AttributesLoop endBefore0 closeQuoteOnNewline []))"

text \<open>The end of \<open>tag\<close>: the closing tag is optional at the end of the input, and
  \<open>False\<close> stands for the \<open>return null\<close> inside.\<close>

definition closeTag :: "jstring \<Rightarrow> bool M" where
  "closeTag name =
     bind (gets isEnd) (\<lambda>atEnd.
       if atEnd then ret True
       else bind (eat (S ''</'' @ name @ S ''>'') False) (\<lambda>closed.
              if closed then ret True
              else bind (eat (S ''</'' @ name) False) (\<lambda>half.
                     if \<not> half then ret True
                     else bind (eatWhitespace True) (\<lambda>_. eat (S ''>'') False))))"

definition tag :: "rec \<Rightarrow> tagOpts \<Rightarrow> val M" where
  "tag rec opts =
     bind (eat (S ''<'') True) (\<lambda>_.
     bind (gets (\<lambda>p. isEnd p \<or> \<not> isTagNameStart (str p ! offset (pos p)))) (\<lambda>noName.
       if noName then ret Null
       else
         bind (rec (Next (noOpts\<lparr>endBefore := [S '' '', [9], S ''>'', S ''/''],
                                  backtrackOnOpt := Some IsEndOfLine\<rparr>))) (\<lambda>tagContent.
           (case tagContent of
              Arr (Str t0 # rest) \<Rightarrow>
                bind (gets toLowerCase) (\<lambda>lower.
                bind (gets isAfterTagName) (\<lambda>after.
                  (let name = lower t0;
                       nameField = (if tagType opts = S ''tag'' then [(''name'', Str name)] else [])
                   in if name = [] \<or> \<not> after \<or> (case only opts of Some names \<Rightarrow> name \<notin> set names | None \<Rightarrow> False)
                      then ret Null
                      else
                        bind (attributes rec [S ''/>'', S ''/ >'', S ''>''] False) (\<lambda>attrs.
                        bind (eatAny [S ''/>'', S ''/ >''] False) (\<lambda>selfClosing.
                          if selfClosing then
                            ret (Obj (objectAssign [(''type'', Str (tagType opts)), (''attributes'', attrs),
                                                    (''selfClosing'', Bool True)] nameField))
                          else
                            bind (eat (S ''>'') False) (\<lambda>opened.
                              if \<not> opened then ret Null
                              else if \<not> hasContent opts then
                                ret (Obj (objectAssign [(''type'', Str (tagType opts)), (''attributes'', attrs)]
                                            nameField))
                              else
                                bind (rec (Next (noOpts\<lparr>endAtEos := True,
                                                        endBefore := tagEndBefore opts @ [S ''</'' @ name, S '']]'', S ''}}''],
                                                        allow := tagAllow opts, disallow := tagDisallow opts\<rparr>))) (\<lambda>c.
                                  (let content = (if tagTrim opts then trim c else c)
                                   in if isNullish content then ret Null
                                      else bind (closeTag name) (\<lambda>ok.
                                             if \<not> ok then ret Null
                                             else ret (Obj (objectAssign
                                                              [(''type'', Str (tagType opts)), (''content'', content),
                                                               (''attributes'', attrs)] nameField)))))))))))
            | _ \<Rightarrow> ret Null))))"

definition indentLoop :: "rec \<Rightarrow> bool \<Rightarrow> val list \<Rightarrow> val M" where
  "indentLoop rec start0 items =
     bind (gets (\<lambda>p. (start0 \<or> isStartOfLine p) \<and> startsWith p (S '':''))) (\<lambda>go.
       if \<not> go then ret (Obj [(''items'', Arr items)])
       else
         bind (eatCount (S '':'')) (\<lambda>level.
         bind (rec (Next (noOpts\<lparr>end' := [[10]], endAtEos := True, endBefore := [S ''}}'', S ''</'']\<rparr>))) (\<lambda>c.
           rec (IndentLoop start0 (items @ [Obj [(''level'', Num (int level)), (''content'', trim c)]])))))"

definition indent :: "rec \<Rightarrow> bool \<Rightarrow> val M" where
  "indent rec start0 = rec (IndentLoop start0 [])"

definition listLoop :: "rec \<Rightarrow> jstring \<Rightarrow> val list \<Rightarrow> val M" where
  "listLoop rec character items =
     bind (gets (\<lambda>p. isStartOfLine p \<and> startsWith p character)) (\<lambda>go.
       if \<not> go then ret (Obj [(''items'', Arr items)])
       else
         bind (eatCount character) (\<lambda>level.
         bind (gets (\<lambda>p. startsWith p (S '':''))) (\<lambda>colon.
         bind (if colon
               then bind (indent rec True) (\<lambda>i.
                      ret (append [] [Obj (objectAssign [(''type'', Str (S ''indent''))] (objFields i))]))
               else ret []) (\<lambda>content0.
         bind (rec (Next (noOpts\<lparr>end' := [[10]], endAtEos := True, endBefore := [S ''}}'', S ''</'']\<rparr>))) (\<lambda>line.
           (case line of
              Arr chunks \<Rightarrow>
                rec (ListLoop character
                       (items @ [Obj [(''level'', Num (int level)),
                                      (''content'', trim (Arr (append content0 chunks)))]]))
            | _ \<Rightarrow> throw TypeError))))))"

definition list :: "rec \<Rightarrow> jstring \<Rightarrow> val M" where
  "list rec character = rec (ListLoop character [])"

definition description :: "rec \<Rightarrow> val M" where
  "description rec =
     bind (rec (Next (noOpts\<lparr>end' := [[10]], endAtEos := True, endBefore := [S '':'']\<rparr>))) (\<lambda>t.
       if isNullish (trim t) then ret Null
       else
         bind (eat (S '':'') False) (\<lambda>colon.
         bind (if colon
               then bind (rec (Next (noOpts\<lparr>end' := [[10]], endAtEos := True\<rparr>))) (\<lambda>c. ret (trim c))
               else ret (Arr [])) (\<lambda>content.
           ret (Obj [(''title'', trim t), (''content'', content)]))))"

definition heading :: "rec \<Rightarrow> val M" where
  "heading rec =
     bind (eatCount (S ''='')) (\<lambda>level.
     bind (rec (Next (noOpts\<lparr>endBefore := [S ''=''], backtrackOnOpt := Some IsEndOfLine\<rparr>))) (\<lambda>c.
     bind (eat (replicate level 61) False) (\<lambda>closed.
       if \<not> closed then ret Null
       else bind (eat [10] False) (\<lambda>_.
              ret (Obj [(''level'', Num (int level)), (''content'', trim c)])))))"

definition preformattedLoop :: "rec \<Rightarrow> val list \<Rightarrow> val M" where
  "preformattedLoop rec content =
     bind (gets (\<lambda>p. isStartOfLine p \<and> startsWith p (S '' ''))) (\<lambda>go.
       if \<not> go then ret (Arr content)
       else
         bind (eat (S '' '') True) (\<lambda>_.
         bind (rec (Next (noOpts\<lparr>end' := [[10]], endAtEos := True,
                                  allow := Some [''lineBreak'', ''templatePreformatted'', ''comment'', ''link'',
                                                 ''bold'', ''italics'']\<rparr>))) (\<lambda>line1.
         bind (if isNullish line1
               then rec (Next (noOpts\<lparr>end' := [[10]], endAtEos := True, allow := Some []\<rparr>))
               else ret line1) (\<lambda>line.
           (case line of
              Arr chunks \<Rightarrow> rec (PreformattedLoop (append content (chunks @ [Str [10]])))
            | _ \<Rightarrow> throw TypeError)))))"

definition preformatted :: "rec \<Rightarrow> val M" where
  "preformatted rec = rec (PreformattedLoop [])"

definition htmlEntity :: "rec \<Rightarrow> val M" where
  "htmlEntity rec =
     bind (eat (S ''x'') False) (\<lambda>isHex.
     bind (rec (Next (noOpts\<lparr>end' := [S '';''], backtrackOnOpt := Some IsEndOfLine\<rparr>))) (\<lambda>digits.
       if \<not> truthy digits then ret Null
       else ret (Str (fromCharCode (parseInt (toString digits) (if isHex then 16 else 10))))))"

definition eatCommentsLoop :: "rec \<Rightarrow> val list \<Rightarrow> val M" where
  "eatCommentsLoop rec comments =
     bind (gets (\<lambda>p. startsWith p (S ''<!--''))) (\<lambda>go.
       if \<not> go then ret (Arr comments)
       else
         bind (rec (Node (Some [''comment'']) [] grammar)) (\<lambda>comment.
           if \<not> truthy comment then ret (Arr comments)
           else bind (eatWhitespace True) (\<lambda>_. rec (EatCommentsLoop (comments @ [comment])))))"

definition eatComments :: "rec \<Rightarrow> val list \<Rightarrow> val M" where
  "eatComments rec comments = bind (eatWhitespace True) (\<lambda>_. rec (EatCommentsLoop comments))"

text \<open>One round of the \<open>do ... while\<close> of \<open>tableRow\<close>, and what follows the loop.\<close>

definition tableRowLoop :: "rec \<Rightarrow> val \<Rightarrow> val list \<Rightarrow> val list \<Rightarrow> val M" where
  "tableRowLoop rec attrs comments content =
     (let finish = (\<lambda>cells. ret (Obj ([(''type'', Str (S ''table-row'')), (''attributes'', attrs),
                                         (''content'', Arr cells)]
                                        @ (if comments \<noteq> [] then [(''comments'', Arr comments)] else []))))
      in
        bind (eatWhitespace True) (\<lambda>_.
        bind (gets (\<lambda>p. \<not> startsWithAny p [S ''|'', S ''!''] \<or> startsWithAny p [S ''|-'', S ''|}''])) (\<lambda>stop.
          if stop then finish content
          else
            bind (eat (S ''!'') False) (\<lambda>header.
            bind (if header then ret True else eat (S ''|'') True) (\<lambda>_.
            bind (eatWhitespace False) (\<lambda>_.
            bind (gets pos) (\<lambda>originalPos.
            bind (attributes rec [S ''|'', S ''!!'', [10]] False) (\<lambda>cellAttrs.
            bind (gets (\<lambda>p. startsWith p (S ''||''))) (\<lambda>double.
            bind (if double then ret False else eat (S ''|'') False) (\<lambda>hasAttrs.
            bind (if hasAttrs then ret cellAttrs else bind (setPos originalPos) (\<lambda>_. ret (Dict []))) (\<lambda>attributes1.
            bind (eatCount [10]) (\<lambda>_.
            bind (rec (Next (noOpts\<lparr>end' := [[10]], endBefore := [S ''|'', S ''!!''],
                                     disallow := [''preformatted'']\<rparr>))) (\<lambda>c.
              if isNullish (trim c) then ret Null
              else
                bind (gets (\<lambda>p. startsWith p (S ''||''))) (\<lambda>bars.
                bind (gets (\<lambda>p. startsWith p (S ''!!''))) (\<lambda>bangs.
                bind (if bars then eat (S ''|'') True else if bangs then eat (S ''!'') True else ret True) (\<lambda>_.
                bind (gets (\<lambda>p. \<not> isEnd p \<and> \<not> startsWith p (S ''|}''))) (\<lambda>again.
                  (let cells = content @ [Obj [(''type'', Str (S ''table-cell'')), (''header'', Bool header),
                                               (''attributes'', attributes1), (''content'', trim c)]]
                   in if again then rec (TableRowLoop attrs comments cells) else finish cells))))))))))))))))))"

definition tableRow :: "rec \<Rightarrow> bool \<Rightarrow> val M" where
  "tableRow rec started =
     (if started then rec (TableRowLoop (Dict []) [] [])
      else
        bind (eat (S ''|-'') True) (\<lambda>_.
        bind (eatCount (S ''-'')) (\<lambda>_.
        bind (attributes rec [[10]] True) (\<lambda>attrs.
        bind (eat [10] False) (\<lambda>newline.
          if \<not> newline then ret Null
          else bind (eatComments rec []) (\<lambda>comments.
                 rec (TableRowLoop attrs (arrItems comments) [])))))))"

text \<open>One round of the \<open>do ... while\<close> of \<open>table\<close>, and what follows the loop.\<close>

definition tableLoop :: "rec \<Rightarrow> val \<Rightarrow> val \<Rightarrow> val list \<Rightarrow> val M" where
  "tableLoop rec attrs caption content =
     bind (eatComments rec []) (\<lambda>commentsBefore.
     bind (gets (\<lambda>p. content = [] \<and> \<not> startsWith p (S ''|-''))) (\<lambda>started.
     bind (tableRow rec started) (\<lambda>row.
       if isNullish row then ret Null
       else
         bind (eatComments rec []) (\<lambda>commentsAfter.
           (let rowComments = (case assoc ''comments'' (objFields row) of Some cs \<Rightarrow> arrItems cs | None \<Rightarrow> []);
                comments = arrItems commentsBefore @ rowComments @ arrItems commentsAfter;
                row' = (if comments \<noteq> [] then Obj (assign ''comments'' (Arr comments) (objFields row)) else row);
                rows = content @ [row']
            in bind (gets (\<lambda>p. startsWith p (S ''|-''))) (\<lambda>again.
                 if again then rec (TableLoop attrs caption rows)
                 else bind (eat (S ''|}'') False) (\<lambda>closed.
                        if \<not> closed then ret Null
                        else ret (Obj [(''type'', Str (S ''table'')), (''attributes'', attrs),
                                       (''caption'', caption), (''content'', Arr rows)]))))))))"

definition table :: "rec \<Rightarrow> val M" where
  "table rec =
     bind (attributes rec [[10]] False) (\<lambda>attrs.
     bind (eat [10] False) (\<lambda>_.
     bind (eatWhitespace True) (\<lambda>_.
     bind (eat (S ''|+'') False) (\<lambda>hasCaption.
     bind (if hasCaption then bind (rec (Next (noOpts\<lparr>end' := [[10]]\<rparr>))) (\<lambda>c. ret (trim c))
           else ret (Arr [])) (\<lambda>caption.
       rec (TableLoop attrs caption []))))))"

definition galleryLoop :: "rec \<Rightarrow> val \<Rightarrow> val list \<Rightarrow> val M" where
  "galleryLoop rec attrs items =
     (let finish = bind (eat (S ''</gallery>'') False) (\<lambda>closed.
                     if \<not> closed then ret Null
                     else ret (Obj [(''attributes'', attrs), (''items'', Arr items)]))
      in
        bind (gets isStartOfLine) (\<lambda>go.
          if \<not> go then finish
          else
            bind (eatWhitespace True) (\<lambda>_.
            bind (gets (\<lambda>p. startsWith p (S ''</gallery>''))) (\<lambda>closing.
              if closing then finish
              else
                bind (rec (Next (noOpts\<lparr>end' := [[10]], endBefore := [S ''|'', S ''</gallery>'']\<rparr>))) (\<lambda>toRaw.
                  if \<not> truthy toRaw then ret Null
                  else
                    (let to = (case trim toRaw of Arr (x # xs) \<Rightarrow> x | _ \<Rightarrow> Undefined)
                     in if \<not> truthy to then
                          bind (eat (S ''|'') False) (\<lambda>bar.
                            if \<not> bar then ret Null
                            else bind (eatWhitespace True) (\<lambda>_. rec (GalleryLoop attrs items)))
                        else
                          bind (eat (S ''|'') False) (\<lambda>bar.
                          bind (if bar
                                then bind (rec (Next (noOpts\<lparr>end' := [[10]], endBefore := [S ''</gallery>'']\<rparr>)))
                                       (\<lambda>c. ret (trim c))
                                else ret (Arr [])) (\<lambda>content.
                            rec (GalleryLoop attrs
                                   (items @ [Obj [(''type'', Str (S ''link'')), (''to'', to),
                                                  (''content'', content)]]))))))))))"

definition gallery :: "rec \<Rightarrow> val M" where
  "gallery rec =
     bind (attributes rec [S ''>''] False) (\<lambda>attrs.
     bind (eat (S ''>'') False) (\<lambda>opened.
       if \<not> opened then ret Null
       else bind (eatWhitespace True) (\<lambda>_. rec (GalleryLoop attrs []))))"

subsection \<open>\<open>Parser.node\<close>\<close>

text \<open>\<open>x.replace(/^[\s-]+|[\s-]+$/g, '')\<close>\<close>

definition stripDashes :: "jstring \<Rightarrow> jstring" where
  "stripDashes s =
     rev (dropWhile (\<lambda>c. isWhiteSpace c \<or> c = 45) (rev (dropWhile (\<lambda>c. isWhiteSpace c \<or> c = 45) s)))"

definition isStr :: "val \<Rightarrow> bool" where
  "isStr v = (case v of Str s \<Rightarrow> True | _ \<Rightarrow> False)"

definition applyPostProcess :: "postproc \<Rightarrow> val \<Rightarrow> val M" where
  "applyPostProcess pp node =
     (case pp of
        RetypeTemplate \<Rightarrow> ret (Obj (assign ''type'' (Str (S ''template'')) (objFields node)))
      | StripComment \<Rightarrow>
          (case assoc ''content'' (objFields node) of
             Some (Arr xs) \<Rightarrow>
               if list_all isStr xs
               then ret (Obj (assign ''content''
                                (Arr (map (\<lambda>x. case x of Str s \<Rightarrow> Str (stripDashes s) | _ \<Rightarrow> x) xs))
                                (objFields node)))
               else throw TypeError
           | _ \<Rightarrow> throw TypeError)
      | DropContent \<Rightarrow> ret (Obj (filter (\<lambda>kv. fst kv \<noteq> ''content'') (objFields node)))
      | NowikiOrEmpty \<Rightarrow>
          ret (case assoc ''content'' (objFields node) of
                 Some c \<Rightarrow> if isNullish c then Arr [] else node
               | None \<Rightarrow> Arr []))"

text \<open>The result of a production becomes a node: an array becomes the \<open>content\<close> of an
  object of the descriptor's type, an object gets the type unless it has its own. (No
  production returns a dictionary.)\<close>

definition wrapNode :: "string option \<Rightarrow> val \<Rightarrow> val" where
  "wrapNode t content =
     (let ty = (case t of Some n \<Rightarrow> Str (S n) | None \<Rightarrow> Undefined)
      in case content of
           Arr xs \<Rightarrow> Obj [(''type'', ty), (''content'', content)]
         | ArrP xs ps \<Rightarrow> Obj [(''type'', ty), (''content'', content)]
         | Obj fs \<Rightarrow> Obj (objectAssign [(''type'', ty)] fs)
         | _ \<Rightarrow> content)"

definition runProd :: "rec \<Rightarrow> prod \<Rightarrow> val M" where
  "runProd rec f =
     (case f of
        Link \<Rightarrow> link rec
      | ExternalLink \<Rightarrow> externalLink rec
      | Template allow0 \<Rightarrow> template rec allow0
      | ListOf character \<Rightarrow> list rec character
      | Indent \<Rightarrow> indent rec False
      | Description \<Rightarrow> description rec
      | Heading \<Rightarrow> heading rec
      | HtmlEntity \<Rightarrow> htmlEntity rec
      | Preformatted \<Rightarrow> preformatted rec
      | Tag opts \<Rightarrow> tag rec opts
      | Gallery \<Rightarrow> gallery rec
      | Table \<Rightarrow> table rec)"

text \<open>\<open>if (++this.backtrackingCount > this.options.backtrackingLimit) throw ...\<close>\<close>

definition countBacktrack :: "unit M" where
  "countBacktrack =
     (\<lambda>p. if backtrackingLimit (options p) < backtrackingCount p + 1
          then Err BacktrackingLimitExceededError (p\<lparr>backtrackingCount := backtrackingCount p + 1\<rparr>)
          else Ok () (p\<lparr>backtrackingCount := backtrackingCount p + 1\<rparr>))"

text \<open>Whether a descriptor is skipped for its type: a descriptor without a type (a
  group) never is.\<close>

definition filtered :: "string option \<Rightarrow> string list option \<Rightarrow> string list \<Rightarrow> bool" where
  "filtered t allow0 disallow0 =
     (case t of
        Some n \<Rightarrow> n \<noteq> [] \<and> ((case allow0 of Some a \<Rightarrow> n \<notin> set a | None \<Rightarrow> False) \<or> n \<in> set disallow0)
      | None \<Rightarrow> False)"

text \<open>The loop of \<open>node\<close> over the grammar.\<close>

primrec nodeLoop :: "rec \<Rightarrow> string list option \<Rightarrow> string list \<Rightarrow> position \<Rightarrow> nodeType list \<Rightarrow> val M" where
  "nodeLoop rec allow0 disallow0 originalPos [] = ret Null"
| "nodeLoop rec allow0 disallow0 originalPos (nt # rest) =
     (let nodeType = fst nt;
          continue = nodeLoop rec allow0 disallow0 originalPos rest;
          rewind = bind (setPos originalPos) (\<lambda>_. continue)
      in
        bind (gets (\<lambda>p. startsWith p (start nodeType))) (\<lambda>starts.
          if \<not> starts \<or> filtered (type nodeType) allow0 disallow0 then continue
          else
            bind (gets (\<lambda>p. case preCondition nodeType of Some c \<Rightarrow> holds c p | None \<Rightarrow> True)) (\<lambda>pre.
              if \<not> pre then rewind
              else
                bind (if keepStart nodeType then ret True else eat (start nodeType) True) (\<lambda>_.
                bind (gets (\<lambda>p. case postCondition nodeType of Some c \<Rightarrow> holds c p | None \<Rightarrow> True)) (\<lambda>post.
                  if \<not> post then rewind
                  else
                    (case snd nt of
                       Some grp \<Rightarrow>
                         bind (rec (Node allow0 disallow0 (map (\<lambda>r. (r, None)) grp))) (\<lambda>result.
                           if isNullish result then rewind else ret result)
                     | None \<Rightarrow>
                         bind (case func nodeType of
                                 Some f \<Rightarrow> runProd rec f
                               | None \<Rightarrow> rec (Next (nextOpts.truncate nodeType))) (\<lambda>content.
                           if (case replaceWith nodeType of Some s \<Rightarrow> s \<noteq> [] | None \<Rightarrow> False)
                           then ret (Str (the (replaceWith nodeType)))
                           else if isNullish content then bind countBacktrack (\<lambda>_. rewind)
                           else
                             bind (case postProcess nodeType of
                                     Some pp \<Rightarrow>
                                       applyPostProcess pp
                                         (if isObject content then wrapNode (type nodeType) content else content)
                                   | None \<Rightarrow>
                                       ret (if isObject content then wrapNode (type nodeType) content else content))
                               (\<lambda>result.
                                  if isNullish result then throw (PostProcessError (type nodeType))
                                  else ret result))))))))"

declare nodeLoop.simps [simp del]

definition node :: "rec \<Rightarrow> string list option \<Rightarrow> string list \<Rightarrow> nodeType list \<Rightarrow> val M" where
  "node rec allow0 disallow0 g =
     bind (gets pos) (\<lambda>originalPos. nodeLoop rec allow0 disallow0 originalPos g)"

subsection \<open>\<open>Parser.next\<close>\<close>

definition pushBacktrackOn :: "cond option \<Rightarrow> unit M" where
  "pushBacktrackOn c =
     (\<lambda>p. case c of Some f \<Rightarrow> Ok () (p\<lparr>backtrackOn := backtrackOn p @ [f]\<rparr>) | None \<Rightarrow> Ok () p)"

definition popBacktrackOn :: "cond option \<Rightarrow> unit M" where
  "popBacktrackOn c =
     (\<lambda>p. case c of Some f \<Rightarrow> Ok () (p\<lparr>backtrackOn := butlast (backtrackOn p)\<rparr>) | None \<Rightarrow> Ok () p)"

definition pushStack :: "unit M" where
  "pushStack = (\<lambda>p. Ok () (p\<lparr>stack := stack p @ [pos p]\<rparr>))"

definition popStack :: "unit M" where
  "popStack = (\<lambda>p. Ok () (p\<lparr>stack := butlast (stack p)\<rparr>))"

text \<open>\<open>this.str.substr(start, length)\<close>\<close>

definition substr :: "jstring \<Rightarrow> nat \<Rightarrow> nat \<Rightarrow> jstring" where
  "substr s start0 len = take len (drop start0 s)"

text \<open>\<open>[].concat(node)\<close>: the elements of an array, or the one value.\<close>

definition concatNode :: "val \<Rightarrow> val list" where
  "concatNode v = (case v of Arr xs \<Rightarrow> xs | ArrP xs ps \<Rightarrow> xs | _ \<Rightarrow> [v])"

text \<open>What follows the loop of \<open>next\<close>.\<close>

definition nextFinish :: "nextOpts \<Rightarrow> nat \<Rightarrow> nat \<Rightarrow> val list \<Rightarrow> val M" where
  "nextFinish opts chunkStart chunkLength content =
     bind (gets str) (\<lambda>s.
     bind (popBacktrackOn (backtrackOnOpt opts)) (\<lambda>_.
       ret (Arr (if chunkLength \<noteq> 0 then append content [Str (substr s chunkStart chunkLength)] else content))))"

text \<open>One round of the \<open>for (;;)\<close> of \<open>next\<close>. When \<open>node\<close> returns a value that is not
  truthy the cursor need not be where it was (\<open>link\<close> returns \<open>false\<close> without going
  back), and \<open>this.str[this.pos.offset]\<close> is \<open>undefined\<close> at the end of the input: its
  \<open>length\<close> in \<open>advance\<close> throws.\<close>

definition nextLoop :: "rec \<Rightarrow> nextOpts \<Rightarrow> position \<Rightarrow> nat \<Rightarrow> nat \<Rightarrow> val list \<Rightarrow> val M" where
  "nextLoop rec opts originalPos chunkStart chunkLength content =
     bind (gets isEnd) (\<lambda>eos.
       if eos \<and> endAtEos opts then nextFinish opts chunkStart chunkLength content
       else
         bind (gets (\<lambda>p. list_ex (\<lambda>f. holds f p) (backtrackOn p) \<or> startsWithAny p (backtrack opts) \<or> eos)) (\<lambda>back.
           if back then
             bind countBacktrack (\<lambda>_.
             bind (setPos originalPos) (\<lambda>_.
             bind (popBacktrackOn (backtrackOnOpt opts)) (\<lambda>_. ret Null)))
           else
             bind (gets (\<lambda>p. startsWithAny p (end' opts) \<and> \<not> startsWithAny p (notEnd opts))) (\<lambda>atEnd.
               if atEnd then
                 bind (eatAny (end' opts) True) (\<lambda>_. nextFinish opts chunkStart chunkLength content)
               else
                 bind (gets (\<lambda>p. startsWithAny p (endBefore opts))) (\<lambda>before.
                   if before then nextFinish opts chunkStart chunkLength content
                   else
                     bind pushStack (\<lambda>_.
                     bind (rec (Node (allow opts) (disallow opts) grammar)) (\<lambda>nd.
                     bind popStack (\<lambda>_.
                     bind (gets str) (\<lambda>s.
                     bind (gets (\<lambda>p. offset (pos p))) (\<lambda>off.
                       if truthy nd then
                         rec (NextLoop opts originalPos
                                (if chunkLength \<noteq> 0 then off else chunkStart) 0
                                (append (if chunkLength \<noteq> 0
                                         then append content [Str (substr s chunkStart chunkLength)]
                                         else content)
                                   (concatNode nd)))
                       else if length s \<le> off then throw TypeError
                       else
                         bind (advance [s ! off]) (\<lambda>ch.
                           rec (NextLoop opts originalPos
                                  (if chunkLength = 0 then off else chunkStart)
                                  (chunkLength + length ch) content)))))))))))"

definition next' :: "rec \<Rightarrow> nextOpts \<Rightarrow> val M" where
  "next' rec opts =
     (if end' opts = [] \<and> endBefore opts = [] \<and> backtrack opts = [] \<and> \<not> endAtEos opts then ret (Arr [])
      else
        bind (gets pos) (\<lambda>originalPos.
        bind (pushBacktrackOn (backtrackOnOpt opts)) (\<lambda>_.
          rec (NextLoop opts originalPos (offset originalPos) 0 []))))"

subsection \<open>Running with fuel\<close>

definition step :: "rec \<Rightarrow> call \<Rightarrow> val M" where
  "step rec c =
     (case c of
        Next opts \<Rightarrow> next' rec opts
      | NextLoop opts originalPos chunkStart chunkLength content \<Rightarrow>
          nextLoop rec opts originalPos chunkStart chunkLength content
      | Node allow0 disallow0 g \<Rightarrow> node rec allow0 disallow0 g
      | TemplateLoop name allow0 parameters positionalParameters \<Rightarrow>
          templateLoop rec name allow0 parameters positionalParameters
      | LinkLoop page parameters positionalParameters \<Rightarrow> linkLoop rec page parameters positionalParameters
      | AttributesLoop endBefore0 closeQuoteOnNewline attrs \<Rightarrow>
          attributesLoop rec endBefore0 closeQuoteOnNewline attrs
      | ListLoop character items \<Rightarrow> listLoop rec character items
      | IndentLoop start0 items \<Rightarrow> indentLoop rec start0 items
      | PreformattedLoop content \<Rightarrow> preformattedLoop rec content
      | TableLoop attrs caption content \<Rightarrow> tableLoop rec attrs caption content
      | TableRowLoop attrs comments content \<Rightarrow> tableRowLoop rec attrs comments content
      | GalleryLoop attrs items \<Rightarrow> galleryLoop rec attrs items
      | EatCommentsLoop comments \<Rightarrow> eatCommentsLoop rec comments)"

text \<open>\<open>run fuel c\<close> performs the call \<open>c\<close> with calls nested at most \<open>fuel\<close> deep.\<close>

primrec run :: "nat \<Rightarrow> call \<Rightarrow> val M" where
  "run 0 c = (\<lambda>p. OutOfFuel)"
| "run (Suc fuel) c = step (run fuel) c"

declare run.simps [simp del]

subsection \<open>\<open>Parser.parse\<close>\<close>

text \<open>What \<open>parse\<close> does: it returns a value, returns the error it caught, or throws it.
  \<open>Unfinished\<close> is the model running out of fuel.\<close>

datatype outcome = Returned val | ReturnedError error | Threw error | Unfinished

text \<open>The assignments at the start of \<open>parse\<close>: every field but the options (and the
  host) is set anew.\<close>

definition reset :: "parser \<Rightarrow> jstring \<Rightarrow> parser" where
  "reset this s =
     this\<lparr>str := s, lowercaseStr := map (\<lambda>c. toLowerCase this [c]) s,
          pos := \<lparr>offset = 0, lineNumber = 1\<rparr>, backtrackOn := [], backtrackingCount := 0,
          stack := []\<rparr>"

definition parse :: "nat \<Rightarrow> parser \<Rightarrow> jstring \<Rightarrow> outcome \<times> parser" where
  "parse fuel this s =
     (case run fuel (Next (noOpts\<lparr>endAtEos := True\<rparr>)) (reset this s) of
        Ok v p \<Rightarrow> (Returned v, p)
      | Err e p \<Rightarrow>
          (if throwError (options p) then (Threw e, p)
           else if returnError (options p) then (ReturnedError e, p)
           else (Returned Null, p))
      | OutOfFuel \<Rightarrow> (Unfinished, reset this s))"

subsection \<open>Construction\<close>

definition kDefaultOptions :: options where
  "kDefaultOptions = \<lparr>backtrackingLimit = 50000, throwError = False, returnError = False, debug = False\<rparr>"

text \<open>The options object a caller passes: the keys it sets, in order. The constructor
  merges them over the defaults (\<open>{...this.kDefaultOptions, ...options}\<close>).\<close>

datatype optionSetting = BacktrackingLimit int | ThrowError bool | ReturnError bool | Debug bool

fun setOption :: "options \<Rightarrow> optionSetting \<Rightarrow> options" where
  "setOption opts (BacktrackingLimit n) = opts\<lparr>backtrackingLimit := n\<rparr>"
| "setOption opts (ThrowError b) = opts\<lparr>throwError := b\<rparr>"
| "setOption opts (ReturnError b) = opts\<lparr>returnError := b\<rparr>"
| "setOption opts (Debug b) = opts\<lparr>debug := b\<rparr>"

text \<open>\<open>new WikiParser(options)\<close> on a host with the given \<open>toLowerCase\<close>. The fields that
  \<open>parse\<close> sets are not set by the constructor; they start empty here.\<close>

definition WikiParser :: "(jstring \<Rightarrow> jstring) \<Rightarrow> optionSetting list \<Rightarrow> parser" where
  "WikiParser lower settings =
     \<lparr>options = foldl setOption kDefaultOptions settings, toLowerCase = lower, str = [],
      lowercaseStr = [], pos = \<lparr>offset = 0, lineNumber = 1\<rparr>, backtrackOn = [],
      backtrackingCount = 0, stack = []\<rparr>"

text \<open>The function \<open>parse(str, options)\<close> of the module.\<close>

definition wikiParse :: "nat \<Rightarrow> (jstring \<Rightarrow> jstring) \<Rightarrow> jstring \<Rightarrow> optionSetting list \<Rightarrow> outcome" where
  "wikiParse fuel lower s settings = fst (parse fuel (WikiParser lower settings) s)"

text \<open>A host whose \<open>toLowerCase\<close> folds the ASCII letters and leaves every other code
  unit alone: on ASCII input it is the \<open>toLowerCase\<close> of every host.\<close>

definition asciiToLowerCase :: "jstring \<Rightarrow> jstring" where
  "asciiToLowerCase s = map asciiLowerUnit s"

section \<open>Running the model\<close>

text \<open>
  The equations a computation unfolds by when it is applied to a state. The recursive
  functions unfold one step at a time, and only on a state, so that the simplifier
  evaluates a call on a concrete input in the order the program runs.
\<close>

lemma bind_apply:
  "bind m f p = (case m p of Ok v p' \<Rightarrow> f v p' | Err e p' \<Rightarrow> Err e p' | OutOfFuel \<Rightarrow> OutOfFuel)"
  by (simp add: bind_def)

lemma ret_apply: "ret v p = Ok v p"
  by (simp add: ret_def)

lemma throw_apply: "throw e p = Err e p"
  by (simp add: throw_def)

lemma gets_apply: "gets f p = Ok (f p) p"
  by (simp add: gets_def)

lemma setPos_apply: "setPos q p = Ok () (p\<lparr>pos := q\<rparr>)"
  by (simp add: setPos_def)

lemma run_apply: "run fuel c p = (if fuel = 0 then OutOfFuel else step (run (fuel - 1)) c p)"
  by (cases fuel) (simp_all add: run.simps)

lemma eatCountLoop_apply:
  "eatCountLoop fuel chunk count p =
     (if fuel = 0 then OutOfFuel
      else if startsWith p chunk
           then bind (advance chunk) (\<lambda>_. eatCountLoop (fuel - 1) chunk (count + 1)) p
           else Ok count p)"
  by (cases fuel) (simp_all add: eatCountLoop.simps)

lemma eatWhitespaceLoop_apply:
  "eatWhitespaceLoop fuel newLine p =
     (if fuel = 0 then OutOfFuel
      else bind (eatAny ([S '' '', [9]] @ (if newLine then [[10]] else [])) False)
             (\<lambda>more. if more then eatWhitespaceLoop (fuel - 1) newLine else ret ()) p)"
  by (cases fuel) (simp_all add: eatWhitespaceLoop.simps cong: if_cong)

lemma linkTrail_apply:
  "linkTrail fuel content p =
     (if fuel = 0 then OutOfFuel
      else if \<not> isEnd p \<and> isWordChar (str p ! offset (pos p))
           then bind (advance [str p ! offset (pos p)]) (\<lambda>ch.
                  (case content of
                     Arr xs \<Rightarrow> linkTrail (fuel - 1) (Arr (append xs [Str ch]))
                   | _ \<Rightarrow> throw TypeError)) p
           else Ok content p)"
  by (cases fuel) (simp_all add: linkTrail.simps cong: if_cong val.case_cong)

lemma nodeLoop_Nil: "nodeLoop rec a d q [] p = Ok Null p"
  by (simp add: nodeLoop.simps ret_def)

lemmas nodeLoop_Cons = nodeLoop.simps(2)[THEN fun_cong]

lemmas eval_monad = bind_apply ret_apply throw_apply gets_apply setPos_apply

lemmas eval_loops =
  run_apply eatCountLoop_apply eatWhitespaceLoop_apply linkTrail_apply nodeLoop_Nil nodeLoop_Cons

lemmas eval_strings =
  S_def isWhiteSpace_def trimLeft_def trimRight_def jsTrim_def isWordChar_def isTagNameStart_def
  asciiLowerUnit_def asciiToLowerCase_def stripDashes_def substr_def

lemmas eval_numbers =
  isDigit_def digitValue_def digitsValue_def isDigitOf_def normalise_def roundDouble_def
  exponentPart_def decimalLiteral_def nonDecimalLiteral_def toNumber_def isNaN_def minusOne_def
  arrayKey_def parseInt_def toUint16_def fromCharCode_def bitlen.simps stripTwos.simps
  digitsOfNat.simps

lemmas eval_values =
  objectAssign_def dictSet_def appendChunk_def append_def trimFirst_def trimLast_def trim_def
  sparseSet_def sparsePush_def sparseVal_def objFields_def arrItems_def isStr_def wrapNode_def
  concatNode_def

lemmas eval_cursor =
  isStart_def isEnd_def isStartOfLine_def isEndOfLine_def startsWith_def startsWithAny_def
  startsWithCI_def uriSchemeFollows_def isAfterTagName_def advance_def error_def eat_def eatAny_def
  eatCount_def eatWhitespace_def countBacktrack_def pushBacktrackOn_def popBacktrackOn_def
  pushStack_def popStack_def

lemmas eval_grammar =
  noOpts_def tagDefaults_def mkRule_def htmlEntities_def tags_def grammar_def filtered_def
  nextOpts.truncate_def

lemmas eval_productions =
  paramName_def storeParam_def templateLoop_def template_def linkLoop_def link_def
  externalLink_def quotedString_def attributesLoop_def attributes_def closeTag_def tag_def
  indentLoop_def indent_def listLoop_def list_def description_def heading_def
  preformattedLoop_def preformatted_def htmlEntity_def eatCommentsLoop_def eatComments_def
  tableRowLoop_def tableRow_def tableLoop_def table_def galleryLoop_def gallery_def
  applyPostProcess_def runProd_def node_def nextFinish_def nextLoop_def next'_def step_def

lemmas eval_parse =
  reset_def parse_def kDefaultOptions_def WikiParser_def wikiParse_def Let_def

lemmas eval_all =
  eval_monad eval_loops eval_strings eval_numbers eval_values eval_cursor eval_grammar
  eval_productions eval_parse

section \<open>The empty input\<close>

text \<open>
  C9. Parsing the empty string succeeds and returns the empty node list, whatever the
  options are (so in particular for every nonnegative \<open>backtrackingLimit\<close>), on every
  host, from every state of the parser object, as soon as the fuel allows the two nested
  calls \<open>next\<close> makes.
\<close>

theorem parse_empty:
  "fst (parse (Suc (Suc fuel)) this []) = Returned (Arr [])
   \<and> wikiParse (Suc (Suc fuel)) lower [] settings = Returned (Arr [])"
  by (simp add: parse_def wikiParse_def reset_def run.simps step_def next'_def nextLoop_def
      nextFinish_def noOpts_def bind_apply gets_apply ret_apply isEnd_def pushBacktrackOn_def
      popBacktrackOn_def)

section \<open>Determinism\<close>

text \<open>
  C8. \<open>parse\<close> is deterministic. In the model \<open>parse\<close> is a function of the input, the
  fuel and the parser object; what the theorem adds is that of the object only the
  options (and the host it runs on) matter: whatever an earlier call left in the other
  fields, two runs on the same input give the same outcome and leave the same state.
\<close>

theorem parse_deterministic:
  assumes "options this1 = options this2" and "toLowerCase this1 = toLowerCase this2"
  shows "parse fuel this1 s = parse fuel this2 s"
proof -
  have "reset this1 s = reset this2 s"
    using assms by (simp add: reset_def)
  then show ?thesis
    by (simp add: parse_def cong: result.case_cong)
qed

theorem parse_deterministic_witness:
  "options (WikiParser asciiToLowerCase [ThrowError True])
     = options ((WikiParser asciiToLowerCase [ThrowError True])
                  \<lparr>str := S ''old'', pos := \<lparr>offset = 3, lineNumber = 2\<rparr>, backtrackOn := [IsEndOfLine],
                   backtrackingCount := 7\<rparr>)
   \<and> parse 9 (WikiParser asciiToLowerCase [ThrowError True]) (S ''a'')
     = parse 9 ((WikiParser asciiToLowerCase [ThrowError True])
                  \<lparr>str := S ''old'', pos := \<lparr>offset = 3, lineNumber = 2\<rparr>, backtrackOn := [IsEndOfLine],
                   backtrackingCount := 7\<rparr>) (S ''a'')"
  using parse_deterministic
    [of "WikiParser asciiToLowerCase [ThrowError True]"
        "(WikiParser asciiToLowerCase [ThrowError True])
           \<lparr>str := S ''old'', pos := \<lparr>offset = 3, lineNumber = 2\<rparr>, backtrackOn := [IsEndOfLine],
            backtrackingCount := 7\<rparr>"
        9 "S ''a''"]
  by (simp add: WikiParser_def)

section \<open>Links\<close>

text \<open>
  C1. The spec says a link whose page text begins with a colon has the colon stripped
  from \<open>to\<close> and carries \<open>plain: true\<close>. \<open>WikiParser.link\<close> does neither: on
  \<open>[[:Category:Y]]\<close> the node keeps the colon in \<open>to\<close> and in the content, and it has no
  field \<open>plain\<close>.
\<close>

theorem link_colon_kept:
  "wikiParse 40 asciiToLowerCase (S ''[[:Category:Y]]'') [ThrowError True] =
     Returned (Arr [Obj [(''type'', Str (S ''link'')), (''to'', Str (S '':Category:Y'')),
                         (''content'', Arr [Str (S '':Category:Y'')])]])"
  by (simp add: eval_all)

end
